theory Spec2Isabelle
  imports Main
begin

section \<open>icepack.datasets: fetching and caching glaciological data sets\<close>

text \<open>
  A shallow embedding of \<^verbatim>\<open>src/icepack/datasets.py\<close>. The module talks to three
  outside parties: the earthaccess catalog (dataset and granule search, login), the
  network (HTTP transfers) and pooch (the on-disk cache and its archive processors).
  They are gathered in a record \<open>world\<close> that the functions read, and everything the
  module changes (files in the cache, requests sent) is in a record \<open>state\<close> that the
  functions take and return. A Python exception is the \<open>Inl\<close> of a sum.
\<close>

subsection \<open>Python values and exceptions\<close>

text \<open>
  What a fetch returns is a path (a \<^verbatim>\<open>str\<close>) or a list, whose elements are again
  paths or lists (a processor such as \<^verbatim>\<open>_recursive_unzip\<close> returns a list).
\<close>

datatype pyval = Str string | Lst "pyval list"

text \<open>
  The exceptions that \<^verbatim>\<open>requests.get\<close> raises: for a URL it cannot use, MissingSchema,
  InvalidSchema or InvalidURL, which are subclasses of ValueError; for a network failure,
  ConnectionError, which is not.
\<close>

datatype request_error = MissingSchema | InvalidSchema | InvalidURL | ConnectionError

text \<open>
  \<open>ValueError m\<close> is an exception of the class ValueError itself with the message \<open>m\<close>,
  as a \<^verbatim>\<open>raise ValueError(m)\<close> of the module builds it.
\<close>

datatype error =
    KeyError string
  | IndexError
  | NameError string
  | ValueError string
  | AuthError
  | TransferError string
  | RequestError request_error

text \<open>\<^verbatim>\<open>isinstance(e, ValueError)\<close>.\<close>

fun is_ValueError :: "error \<Rightarrow> bool" where
  "is_ValueError (ValueError m) = True"
| "is_ValueError (RequestError MissingSchema) = True"
| "is_ValueError (RequestError InvalidSchema) = True"
| "is_ValueError (RequestError InvalidURL) = True"
| "is_ValueError e = False"

text \<open>Iterating a Python value: a list yields its elements, a string its characters.\<close>

fun py_iter :: "pyval \<Rightarrow> pyval list" where
  "py_iter (Lst xs) = xs"
| "py_iter (Str s) = map (\<lambda>c. Str [c]) s"

text \<open>\<^verbatim>\<open>x in s\<close> on strings is the substring test.\<close>

fun starts_with :: "string \<Rightarrow> string \<Rightarrow> bool" where
  "starts_with [] s = True"
| "starts_with (c # cs) [] = False"
| "starts_with (c # cs) (d # ds) = (c = d \<and> starts_with cs ds)"

fun substring :: "string \<Rightarrow> string \<Rightarrow> bool" where
  "substring n [] = (n = [])"
| "substring n (c # cs) = (starts_with n (c # cs) \<or> substring n cs)"

text \<open>\<^verbatim>\<open>name in f\<close>: substring test when \<open>f\<close> is a string, membership when it is a list.\<close>

fun py_contains :: "string \<Rightarrow> pyval \<Rightarrow> bool" where
  "py_contains n (Str s) = substring n s"
| "py_contains n (Lst xs) = (Str n \<in> set xs)"

subsection \<open>pathlib: the name and the suffix of a path\<close>

text \<open>
  On a POSIX path, \<^verbatim>\<open>pathlib.Path(p).name\<close> is the last component of \<open>p\<close>, where empty components and
  \<^verbatim>\<open>.\<close> are dropped; \<^verbatim>\<open>.suffix\<close> is the part of the name from its last dot on, when
  that dot is neither the first nor the last character of the name:
  \<^verbatim>\<open>i = name.rfind('.'); return name[i:] if 0 < i < len(name) - 1 else ''\<close>.
\<close>

fun split_sep :: "char \<Rightarrow> string \<Rightarrow> string list" where
  "split_sep d [] = [[]]"
| "split_sep d (c # cs) =
     (if c = d then [] # split_sep d cs
      else (case split_sep d cs of [] \<Rightarrow> [[c]] | w # ws \<Rightarrow> (c # w) # ws))"

definition path_name :: "string \<Rightarrow> string" where
  "path_name p =
     (let tail = filter (\<lambda>x. x \<noteq> [] \<and> x \<noteq> ''.'') (split_sep CHR ''/'' p)
      in if tail = [] then [] else last tail)"

fun rfind :: "char \<Rightarrow> string \<Rightarrow> nat option" where
  "rfind d [] = None"
| "rfind d (c # cs) =
     (case rfind d cs of
        Some i \<Rightarrow> Some (Suc i)
      | None \<Rightarrow> if c = d then Some 0 else None)"

definition path_suffix :: "string \<Rightarrow> string" where
  "path_suffix p =
     (let name = path_name p
      in case rfind CHR ''.'' name of
           None \<Rightarrow> []
         | Some i \<Rightarrow> if 0 < i \<and> int i < int (length name) - 1 then drop i name else [])"

subsection \<open>The outside world and the state\<close>

type_synonym search = "(string \<times> string) list"

text \<open>
  A collection record of the catalog, seen through \<^verbatim>\<open>summary()\<close>: a dictionary, of
  which the module reads the entry \<^verbatim>\<open>"get-data"\<close>, a list of URLs. A granule record,
  seen through \<^verbatim>\<open>data_links()\<close>.
\<close>

record collection =
  summary :: "string \<rightharpoonup> string list"

record granule =
  data_links :: "string list"

datatype action = Download | Update | Fetch

type_synonym pup = "unit option"

type_synonym processor = "string \<Rightarrow> action \<Rightarrow> pup \<Rightarrow> pyval"

record world =
  search_datasets :: "search \<Rightarrow> collection list"
  search_data :: "search \<Rightarrow> granule list"
  credentials :: "(string \<times> string) option"
  requests_get :: "string \<Rightarrow> request_error + string"
  remote :: "string \<rightharpoonup> string"
  os_cache :: "string \<Rightarrow> string"
  unzipper :: "string \<Rightarrow> action \<Rightarrow> pup \<Rightarrow> string list"

text \<open>
  \<open>credentials\<close> is what \<^verbatim>\<open>earthaccess.login()\<close> obtains (\<open>None\<close>: the login fails),
  \<open>requests_get url\<close> is the final location \<^verbatim>\<open>requests.get(url).url\<close> or the exception
  that the GET raises, \<open>remote\<close> maps a URL to the content served there, \<open>os_cache\<close> is \<^verbatim>\<open>pooch.os_cache\<close> and \<open>unzipper\<close> is a \<^verbatim>\<open>pooch.Unzip()\<close>
  object: called on an archive, it returns the paths of the extracted files.
\<close>

datatype event =
    Login
  | SearchDatasets search
  | SearchData search
  | HttpGet string
  | Transfer string string

record state =
  files :: "string \<rightharpoonup> string"
  log :: "event list"

definition emit :: "event \<Rightarrow> state \<Rightarrow> state" where
  "emit e st = st\<lparr>log := log st @ [e]\<rparr>"

type_synonym downloader = "world \<Rightarrow> string \<Rightarrow> string \<Rightarrow> state \<Rightarrow> (error + unit) \<times> state"

subsection \<open>Downloading through the cache\<close>

text \<open>
  Modelled from the spec: \<^verbatim>\<open>pooch.HTTPDownloader\<close> is not under src/. It is the external
  transfer primitive: it writes the content served at the URL to the output file, and a
  failed transfer is an error that propagates.
\<close>

definition HTTPDownloader :: downloader where
  "HTTPDownloader w url output_file st =
     (let st1 = emit (Transfer url output_file) st
      in case remote w url of
           None \<Rightarrow> (Inl (TransferError url), st1)
         | Some c \<Rightarrow> (Inr (), st1\<lparr>files := (files st1)(output_file \<mapsto> c)\<rparr>))"

text \<open>
  \<^verbatim>\<open>EarthdataDownloader.__call__\<close>: log in, follow the URL with a plain GET to its final
  location, and transfer from there with the credentials. An exception of the GET
  propagates.
\<close>

definition EarthdataDownloader :: downloader where
  "EarthdataDownloader w url output_file st =
     (let st1 = emit Login st
      in case credentials w of
           None \<Rightarrow> (Inl AuthError, st1)
         | Some auth \<Rightarrow>
             (let st2 = emit (HttpGet url) st1
              in case requests_get w url of
                   Inl e \<Rightarrow> (Inl (RequestError e), st2)
                 | Inr location \<Rightarrow> HTTPDownloader w location output_file st2))"

text \<open>
  Modelled from the spec: \<^verbatim>\<open>pooch.retrieve\<close> is not under src/. The cache is addressed by
  the destination filename; with no hash to verify (\<^verbatim>\<open>known_hash=None\<close> in every call of
  the module), a file that exists is a cache hit and nothing is transferred. The processor,
  when there is one, is called on the local path and its value is returned; otherwise the
  local path is.
\<close>

definition retrieve ::
  "world \<Rightarrow> string \<Rightarrow> string \<Rightarrow> string \<Rightarrow> downloader \<Rightarrow> processor option \<Rightarrow> state
     \<Rightarrow> (error + pyval) \<times> state" where
  "retrieve w url fname path downloader processor st =
     (let full_path = path @ ''/'' @ fname;
          action = (if files st full_path = None then Download else Fetch)
      in case (if action = Download then downloader w url full_path st else (Inr (), st)) of
           (Inl e, st') \<Rightarrow> (Inl e, st')
         | (Inr u, st') \<Rightarrow>
             (case processor of
                None \<Rightarrow> (Inr (Str full_path), st')
              | Some p \<Rightarrow> (Inr (p full_path action None), st')))"

subsection \<open>Resolving URLs and fetching: \<^verbatim>\<open>_fetch_nsidc\<close>\<close>

text \<open>
  The keyword arguments that \<^verbatim>\<open>_fetch_nsidc\<close> reads; \<open>None\<close> is a key that is absent.
\<close>

record kwargs =
  kw_extra :: "string option"
  kw_filename :: "string option"
  kw_processor :: "processor option"

text \<open>The body of the \<^verbatim>\<open>try\<close>: each dictionary lookup may raise KeyError, each \<^verbatim>\<open>[0]\<close> IndexError.\<close>

definition try_search_datasets ::
  "world \<Rightarrow> search \<Rightarrow> kwargs \<Rightarrow> state \<Rightarrow> (error + string list) \<times> state" where
  "try_search_datasets w search kwargs st =
     (case kw_extra kwargs of
        None \<Rightarrow> (Inl (KeyError ''extra''), st)
      | Some extra \<Rightarrow>
          (case kw_filename kwargs of
             None \<Rightarrow> (Inl (KeyError ''filename''), st)
           | Some filename \<Rightarrow>
               (let st1 = emit (SearchDatasets search) st;
                    results = search_datasets w search
                in case results of
                     [] \<Rightarrow> (Inl IndexError, st1)
                   | r # rs \<Rightarrow>
                       (case summary r ''get-data'' of
                          None \<Rightarrow> (Inl (KeyError ''get-data''), st1)
                        | Some [] \<Rightarrow> (Inl IndexError, st1)
                        | Some (base # bs) \<Rightarrow> (Inr [base @ extra @ filename], st1)))))"

text \<open>The body of \<^verbatim>\<open>except KeyError\<close>.\<close>

definition except_search_data ::
  "world \<Rightarrow> search \<Rightarrow> state \<Rightarrow> (error + string list) \<times> state" where
  "except_search_data w search st =
     (let st1 = emit (SearchData search) st;
          results = search_data w search
      in case results of
           [] \<Rightarrow> (Inl IndexError, st1)
         | r # rs \<Rightarrow> (Inr (data_links r), st1))"

definition resolve_urls ::
  "world \<Rightarrow> search \<Rightarrow> kwargs \<Rightarrow> state \<Rightarrow> (error + string list) \<times> state" where
  "resolve_urls w search kwargs st =
     (case try_search_datasets w search kwargs st of
        (Inl (KeyError k), st') \<Rightarrow> except_search_data w search st'
      | (Inl e, st') \<Rightarrow> (Inl e, st')
      | (Inr urls, st') \<Rightarrow> (Inr urls, st'))"

text \<open>
  The list comprehension \<^verbatim>\<open>[pooch.retrieve(url, fname=pathlib.Path(url).name, **kw) for url in urls]\<close>;
  an exception in one retrieval ends it.
\<close>

fun retrieve_all ::
  "world \<Rightarrow> processor option \<Rightarrow> string list \<Rightarrow> state \<Rightarrow> (error + pyval list) \<times> state" where
  "retrieve_all w p [] st = (Inr [], st)"
| "retrieve_all w p (url # urls) st =
     (case retrieve w url (path_name url) (os_cache w ''icepack'') EarthdataDownloader p st of
        (Inl e, st') \<Rightarrow> (Inl e, st')
      | (Inr f, st') \<Rightarrow>
          (case retrieve_all w p urls st' of
             (Inl e, st'') \<Rightarrow> (Inl e, st'')
           | (Inr fs, st'') \<Rightarrow> (Inr (f # fs), st'')))"

definition fetch_nsidc ::
  "world \<Rightarrow> search \<Rightarrow> kwargs \<Rightarrow> state \<Rightarrow> (error + pyval) \<times> state" where
  "fetch_nsidc w search kwargs st =
     (case resolve_urls w search kwargs st of
        (Inl e, st') \<Rightarrow> (Inl e, st')
      | (Inr urls, st') \<Rightarrow>
          (case retrieve_all w (kw_processor kwargs) urls st' of
             (Inl e, st'') \<Rightarrow> (Inl e, st'')
           | (Inr filenames, st'') \<Rightarrow>
               (Inr (if length filenames = 1 then filenames ! 0 else Lst filenames), st'')))"

text \<open>The requests that a call adds to the log.\<close>

definition new_events :: "state \<Rightarrow> state \<Rightarrow> event list" where
  "new_events st st' = drop (length (log st)) (log st')"

text \<open>
  The result of a fetch in the words of the specification: the outputs of the processor
  for every URL, each a sequence of paths, are collected into one flat sequence, which is
  returned unwrapped when it has exactly one element.
\<close>

fun processor_result :: "pyval \<Rightarrow> pyval list" where
  "processor_result (Str p) = [Str p]"
| "processor_result (Lst ps) = ps"

definition spec_collect_outputs :: "pyval list \<Rightarrow> pyval" where
  "spec_collect_outputs outs =
     (let flat = concat (map processor_result outs)
      in if length flat = 1 then flat ! 0 else Lst flat)"

subsection \<open>The recursive unzip: \<^verbatim>\<open>_recursive_unzip\<close>\<close>

text \<open>The \<^verbatim>\<open>for\<close> loop over the top-level entries, with the list \<open>results\<close> it extends.\<close>

fun unzip_loop ::
  "(string \<Rightarrow> action \<Rightarrow> pup \<Rightarrow> string list) \<Rightarrow> action \<Rightarrow> pup \<Rightarrow> string list \<Rightarrow> string list
     \<Rightarrow> string list" where
  "unzip_loop unzip action pup [] results = results"
| "unzip_loop unzip action pup (filename # filenames) results =
     (if path_suffix filename = ''.zip''
      then unzip_loop unzip action pup filenames (results @ unzip filename action pup)
      else unzip_loop unzip action pup filenames results)"

definition recursive_unzip ::
  "(string \<Rightarrow> action \<Rightarrow> pup \<Rightarrow> string list) \<Rightarrow> string \<Rightarrow> action \<Rightarrow> pup \<Rightarrow> string list" where
  "recursive_unzip unzip top_level_filename action pup =
     (let filenames = unzip top_level_filename action pup;
          results = unzip_loop unzip action pup filenames []
      in filter (\<lambda>r. path_suffix r = ''.shp'') results)"

text \<open>
  The recursive-unzip-filter processor in the words of the specification: the entries of
  all unzip outputs, top-level and one level nested, with the target extension.
\<close>

definition spec_recursive_unzip ::
  "(string \<Rightarrow> action \<Rightarrow> pup \<Rightarrow> string list) \<Rightarrow> string \<Rightarrow> action \<Rightarrow> pup \<Rightarrow> string list" where
  "spec_recursive_unzip unzip top_level_filename action pup =
     (let top = unzip top_level_filename action pup;
          nested = concat (map (\<lambda>f. unzip f action pup) (filter (\<lambda>f. path_suffix f = ''.zip'') top))
      in filter (\<lambda>r. path_suffix r = ''.shp'') (top @ nested))"

subsection \<open>The Randolph Glacier Inventory\<close>

definition rgi_search :: search where
  "rgi_search = [(''short_name'', ''NSIDC-0770''), (''version'', ''7'')]"

definition rgi_kwargs :: "world \<Rightarrow> kwargs" where
  "rgi_kwargs w =
     \<lparr>kw_extra = Some ''global_files/'',
      kw_filename = Some ''RGI2000-v7.0-G-global.zip'',
      kw_processor = Some (\<lambda>fname action pup. Lst (map Str (recursive_unzip (unzipper w) fname action pup)))\<rparr>"

text \<open>The exception of line 120, for the name \<open>n\<close>.\<close>

definition region_error :: "string \<Rightarrow> error" where
  "region_error n = ValueError (''`'' @ n @ ''` not a valid RGI region!'')"

definition fetch_randolph_glacier_inventory ::
  "world \<Rightarrow> string option \<Rightarrow> state \<Rightarrow> (error + pyval) \<times> state" where
  "fetch_randolph_glacier_inventory w name st =
     (case fetch_nsidc w rgi_search (rgi_kwargs w) st of
        (Inl e, st') \<Rightarrow> (Inl e, st')
      | (Inr all_filenames, st') \<Rightarrow>
          (case name of
             None \<Rightarrow> (Inr all_filenames, st')
           | Some n \<Rightarrow>
               (let filenames = filter (py_contains n) (py_iter all_filenames)
                in if length filenames = 0
                   then (Inl (region_error n), st')
                   else (Inr (if length filenames = 1 then filenames ! 0 else Lst filenames), st'))))"

subsection \<open>Glacier outlines\<close>

definition get_glacier_names :: "string list" where
  "get_glacier_names =
     [''amery'', ''filchner-ronne'', ''getz'', ''helheim'', ''hiawatha'', ''jakobshavn'',
      ''larsen-2015'', ''larsen-2018'', ''larsen-2019'', ''pine-island'', ''ross'']"

text \<open>
  The names bound at module level (imports, the class, the functions), each with the kind
  of object it is bound to, and the lookup of a global name, which raises NameError for a
  name that is not bound. No builtin is called \<^verbatim>\<open>names\<close>.
\<close>

definition module_globals :: "(string \<times> string) list" where
  "module_globals =
     [(''pathlib'', ''module''), (''requests'', ''module''), (''pooch'', ''module''),
      (''earthaccess'', ''module''), (''EarthdataDownloader'', ''class''),
      (''_fetch_nsidc'', ''function''), (''fetch_measures_antarctica'', ''function''),
      (''fetch_measures_greenland'', ''function''), (''fetch_bedmachine_antarctica'', ''function''),
      (''fetch_bedmachine_greenland'', ''function''), (''fetch_mosaic_of_antarctica'', ''function''),
      (''fetch_mosaic_of_greenland'', ''function''), (''_recursive_unzip'', ''function''),
      (''fetch_randolph_glacier_inventory'', ''function''), (''get_glacier_names'', ''function''),
      (''fetch_outline'', ''function'')]"

definition load_global :: "string \<Rightarrow> error + string" where
  "load_global x = (case map_of module_globals x of None \<Rightarrow> Inl (NameError x) | Some v \<Rightarrow> Inr v)"

definition default_commit :: string where
  "default_commit = ''5906b7c21d844a982aa012e934fe29b31ef13d41''"

definition outlines_url :: string where
  "outlines_url = ''https://raw.githubusercontent.com/icepack/glacier-meshes''"

text \<open>\<^verbatim>\<open>commit or default_commit\<close>: \<^verbatim>\<open>None\<close> and the empty string are falsy.\<close>

definition commit_or_default :: "string option \<Rightarrow> string" where
  "commit_or_default commit =
     (case commit of None \<Rightarrow> default_commit | Some c \<Rightarrow> if c = [] then default_commit else c)"

definition outline_url :: "string \<Rightarrow> string option \<Rightarrow> string" where
  "outline_url name commit =
     outlines_url @ ''/'' @ commit_or_default commit @ ''/glaciers/'' @ name @ ''.geojson''"

definition fetch_outline ::
  "world \<Rightarrow> string \<Rightarrow> string option \<Rightarrow> state \<Rightarrow> (error + pyval) \<times> state" where
  "fetch_outline w name commit st =
     (if name \<notin> set get_glacier_names
      then (case load_global ''names'' of
              Inl e \<Rightarrow> (Inl e, st)
            | Inr names \<Rightarrow>
                (Inl (ValueError (''Glacier name '' @ [CHR 0x27] @ name @ [CHR 0x27] @ '' not in '' @ names)), st))
      else retrieve w (outline_url name commit) (name @ ''.geojson'') (os_cache w ''icepack'')
             HTTPDownloader None st)"

subsection \<open>A stub catalog, a stub archive and an empty cache\<close>

text \<open>
  Concrete collaborators on which the functions are run: a catalog with one collection
  whose data access URL is \<^verbatim>\<open>https://host/data/\<close> and one granule with two data links, a
  network that serves every URL, and the inventory archive in the cache, which holds a
  shapefile and a nested archive with a shapefile and another file.
\<close>

definition stub_unzip :: "string \<Rightarrow> action \<Rightarrow> pup \<Rightarrow> string list" where
  "stub_unzip fname action pup =
     (if fname = ''/cache/icepack/RGI2000-v7.0-G-global.zip''
      then [''/cache/icepack/RGI2000-v7.0-G-global.zip.unzip/01_alaska.zip'',
            ''/cache/icepack/RGI2000-v7.0-G-global.zip.unzip/top.shp'']
      else if fname = ''/cache/icepack/RGI2000-v7.0-G-global.zip.unzip/01_alaska.zip''
      then [''/cache/icepack/RGI2000-v7.0-G-global.zip.unzip/01_alaska.zip.unzip/01_alaska.shp'',
            ''/cache/icepack/RGI2000-v7.0-G-global.zip.unzip/01_alaska.zip.unzip/01_alaska.dbf'']
      else [])"

definition stub_world :: world where
  "stub_world =
     \<lparr>search_datasets = (\<lambda>s. [\<lparr>summary = [''get-data'' \<mapsto> [''https://host/data/'']]\<rparr>]),
      search_data = (\<lambda>s. [\<lparr>data_links = [''https://host/g/a.nc'', ''https://host/g/b.nc'']\<rparr>]),
      credentials = Some (''user'', ''secret''),
      requests_get = (\<lambda>u. Inr u),
      remote = (\<lambda>u. Some (''data of '' @ u)),
      os_cache = (\<lambda>app. ''/cache/'' @ app),
      unzipper = stub_unzip\<rparr>"

definition empty_state :: state where
  "empty_state = \<lparr>files = Map.empty, log = []\<rparr>"

definition kwargs_none :: kwargs where
  "kwargs_none = \<lparr>kw_extra = None, kw_filename = None, kw_processor = None\<rparr>"

definition kwargs_both :: kwargs where
  "kwargs_both = \<lparr>kw_extra = Some ''extra/'', kw_filename = Some ''f.tif'', kw_processor = None\<rparr>"

text \<open>
  Variants of the stub: a catalog whose collection has no \<^verbatim>\<open>"get-data"\<close> entry, one whose
  entry is empty, one with no collection, and a network on which every GET raises
  MissingSchema.
\<close>

definition stub_world_no_get_data :: world where
  "stub_world_no_get_data = stub_world\<lparr>search_datasets := (\<lambda>s. [\<lparr>summary = Map.empty\<rparr>])\<rparr>"

definition stub_world_empty_get_data :: world where
  "stub_world_empty_get_data =
     stub_world\<lparr>search_datasets := (\<lambda>s. [\<lparr>summary = [''get-data'' \<mapsto> []]\<rparr>])\<rparr>"

definition stub_world_no_collection :: world where
  "stub_world_no_collection = stub_world\<lparr>search_datasets := (\<lambda>s. [])\<rparr>"

definition stub_world_bad_url :: world where
  "stub_world_bad_url = stub_world\<lparr>requests_get := (\<lambda>u. Inl MissingSchema)\<rparr>"

text \<open>The cache after the outline of Helheim has been fetched at commit \<^verbatim>\<open>aaa\<close>.\<close>

definition helheim_fetched :: state where
  "helheim_fetched = snd (fetch_outline stub_world ''helheim'' (Some ''aaa'') empty_state)"

section \<open>Properties\<close>

subsection \<open>The recursive unzip\<close>

lemma unzip_loop_append:
  "unzip_loop unzip action pup filenames results =
     results @ concat (map (\<lambda>f. unzip f action pup) (filter (\<lambda>f. path_suffix f = ''.zip'') filenames))"
  by (induction filenames arbitrary: results) simp_all

text \<open>
  C1, as the specification states it: the processor returns the \<^verbatim>\<open>.shp\<close> entries among all
  unzip outputs, the top-level ones included. On the stub archive it does not: the
  top-level \<^verbatim>\<open>top.shp\<close> is missing from what \<open>recursive_unzip\<close> returns, since \<open>results\<close>
  is only ever extended with the entries of a nested archive.
\<close>

theorem recursive_unzip_top_level_counterexample:
  "recursive_unzip stub_unzip ''/cache/icepack/RGI2000-v7.0-G-global.zip'' Download None
     = [''/cache/icepack/RGI2000-v7.0-G-global.zip.unzip/01_alaska.zip.unzip/01_alaska.shp'']
   \<and> spec_recursive_unzip stub_unzip ''/cache/icepack/RGI2000-v7.0-G-global.zip'' Download None
     = [''/cache/icepack/RGI2000-v7.0-G-global.zip.unzip/top.shp'',
        ''/cache/icepack/RGI2000-v7.0-G-global.zip.unzip/01_alaska.zip.unzip/01_alaska.shp'']"
  by code_simp

text \<open>
  C1, amended: the processor returns exactly the \<^verbatim>\<open>.shp\<close> entries, in order, among the
  outputs of unzipping each top-level entry whose extension is \<^verbatim>\<open>.zip\<close> (one level only).
  An entry is returned only if one of these nested unzips outputs it.
\<close>

theorem recursive_unzip_nested_only:
  "recursive_unzip unzip top_level_filename action pup =
     filter (\<lambda>r. path_suffix r = ''.shp'')
       (concat (map (\<lambda>f. unzip f action pup)
          (filter (\<lambda>f. path_suffix f = ''.zip'') (unzip top_level_filename action pup))))"
  by (simp add: recursive_unzip_def unzip_loop_append)

subsection \<open>The glacier catalog\<close>

text \<open>
  C8: \<open>get_glacier_names\<close> is a constant list of eleven distinct names in a fixed order;
  it reads no state, so every call returns the same list.
\<close>

theorem get_glacier_names_fixed:
  "length get_glacier_names = 11 \<and> distinct get_glacier_names \<and>
   get_glacier_names =
     [''amery'', ''filchner-ronne'', ''getz'', ''helheim'', ''hiawatha'', ''jakobshavn'',
      ''larsen-2015'', ''larsen-2018'', ''larsen-2019'', ''pine-island'', ''ross'']"
  by (simp add: get_glacier_names_def)

subsection \<open>Fetching an outline\<close>

text \<open>
  C2: for a name that is not in the catalog the specification asks for a ValueError naming
  the glacier. The code builds the message from \<^verbatim>\<open>names\<close>, which is bound nowhere, so the
  lookup raises NameError before the ValueError is built. Nothing is sent and the state is
  unchanged.
\<close>

theorem fetch_outline_unknown_name_raises_NameError:
  "fetch_outline w ''not-a-real-glacier'' commit st = (Inl (NameError ''names''), st)"
  by (simp add: fetch_outline_def get_glacier_names_def load_global_def module_globals_def)

subsection \<open>Resolving the URLs\<close>

lemma try_search_datasets_missing_key:
  "kw_extra kwargs = None \<or> kw_filename kwargs = None \<Longrightarrow>
   \<exists>k. try_search_datasets w search kwargs st = (Inl (KeyError k), st)"
  by (auto simp: try_search_datasets_def split: option.splits)

lemma resolve_urls_missing_key:
  "kw_extra kwargs = None \<or> kw_filename kwargs = None \<Longrightarrow>
   resolve_urls w search kwargs st = except_search_data w search st"
  using try_search_datasets_missing_key [of kwargs w search st]
  by (auto simp: resolve_urls_def)

lemma log_except_search_data:
  "log (snd (except_search_data w search st)) = log st @ [SearchData search]"
  by (simp add: except_search_data_def emit_def Let_def split: list.split)

lemma log_try_search_datasets_both:
  "kw_extra kwargs = Some e \<Longrightarrow> kw_filename kwargs = Some f \<Longrightarrow>
   log (snd (try_search_datasets w search kwargs st)) = log st @ [SearchDatasets search]"
  by (simp add: try_search_datasets_def emit_def Let_def split: list.split option.split)

lemma log_resolve_urls_both:
  "kw_extra kwargs = Some e \<Longrightarrow> kw_filename kwargs = Some f \<Longrightarrow>
   \<exists>rest. log (snd (resolve_urls w search kwargs st)) = log st @ SearchDatasets search # rest"
  using log_try_search_datasets_both [of kwargs e f w search st]
        log_except_search_data [of w search "snd (try_search_datasets w search kwargs st)"]
  by (auto simp: resolve_urls_def split: prod.splits sum.splits error.splits)

text \<open>
  C3, as the specification states it: with both \<^verbatim>\<open>extra\<close> and \<^verbatim>\<open>filename\<close> supplied the
  resolver uses the metadata strategy, whatever the catalog replies. When the summary of
  the first collection has no \<^verbatim>\<open>"get-data"\<close> entry, the KeyError of that lookup is caught
  by the handler meant for the missing keyword: the granules are queried after the
  collections and the URLs are the data links of the first granule.
\<close>

theorem strategy_selection_fallback_counterexample:
  "kw_extra kwargs_both \<noteq> None \<and> kw_filename kwargs_both \<noteq> None
   \<and> resolve_urls stub_world_no_get_data [] kwargs_both empty_state
       = (Inr [''https://host/g/a.nc'', ''https://host/g/b.nc''],
          emit (SearchData []) (emit (SearchDatasets []) empty_state))"
  by (simp add: kwargs_both_def resolve_urls_def try_search_datasets_def except_search_data_def
        stub_world_no_get_data_def stub_world_def)

text \<open>
  C3, amended: the collections are queried if and only if both \<^verbatim>\<open>extra\<close> and \<^verbatim>\<open>filename\<close>
  are supplied. If one of them is missing, the resolver is the granule strategy alone and
  the granule query is the only request. If both are supplied, the collection query comes
  first, and then: no collection, or a first collection with an empty \<^verbatim>\<open>"get-data"\<close>
  entry, is an IndexError; a first collection with a non-empty entry gives the single URL
  built from it and no granule query; a first collection with no \<^verbatim>\<open>"get-data"\<close> entry
  makes the resolver run the granule strategy after the collection query.
\<close>

theorem strategy_selection_by_cases:
  "(SearchDatasets search \<in> set (new_events st (snd (resolve_urls w search kwargs st)))
      \<longleftrightarrow> kw_extra kwargs \<noteq> None \<and> kw_filename kwargs \<noteq> None)
   \<and> (kw_extra kwargs = None \<or> kw_filename kwargs = None \<longrightarrow>
        resolve_urls w search kwargs st = except_search_data w search st
        \<and> new_events st (snd (resolve_urls w search kwargs st)) = [SearchData search])
   \<and> (kw_extra kwargs = Some e \<and> kw_filename kwargs = Some f \<and> search_datasets w search = [] \<longrightarrow>
        resolve_urls w search kwargs st = (Inl IndexError, emit (SearchDatasets search) st))
   \<and> (kw_extra kwargs = Some e \<and> kw_filename kwargs = Some f \<and> search_datasets w search = r # rs
        \<and> summary r ''get-data'' = Some [] \<longrightarrow>
        resolve_urls w search kwargs st = (Inl IndexError, emit (SearchDatasets search) st))
   \<and> (kw_extra kwargs = Some e \<and> kw_filename kwargs = Some f \<and> search_datasets w search = r # rs
        \<and> summary r ''get-data'' = Some (base # bs) \<longrightarrow>
        resolve_urls w search kwargs st = (Inr [base @ e @ f], emit (SearchDatasets search) st))
   \<and> (kw_extra kwargs = Some e \<and> kw_filename kwargs = Some f \<and> search_datasets w search = r # rs
        \<and> summary r ''get-data'' = None \<longrightarrow>
        resolve_urls w search kwargs st
          = except_search_data w search (emit (SearchDatasets search) st))"
proof (intro conjI impI)
  show "SearchDatasets search \<in> set (new_events st (snd (resolve_urls w search kwargs st)))
      \<longleftrightarrow> kw_extra kwargs \<noteq> None \<and> kw_filename kwargs \<noteq> None"
  proof (cases "kw_extra kwargs \<noteq> None \<and> kw_filename kwargs \<noteq> None")
    case True
    then obtain e' f' where "kw_extra kwargs = Some e'" "kw_filename kwargs = Some f'" by auto
    from log_resolve_urls_both [OF this, of w search st]
    obtain rest where
      "log (snd (resolve_urls w search kwargs st)) = log st @ SearchDatasets search # rest"
      by blast
    then show ?thesis using True by (simp add: new_events_def)
  next
    case False
    then have k: "kw_extra kwargs = None \<or> kw_filename kwargs = None" by auto
    have r: "resolve_urls w search kwargs st = except_search_data w search st"
      by (rule resolve_urls_missing_key [OF k])
    show ?thesis using False by (simp add: r new_events_def log_except_search_data)
  qed
next
  assume k: "kw_extra kwargs = None \<or> kw_filename kwargs = None"
  show "resolve_urls w search kwargs st = except_search_data w search st"
    by (rule resolve_urls_missing_key [OF k])
  then show "new_events st (snd (resolve_urls w search kwargs st)) = [SearchData search]"
    by (simp add: new_events_def log_except_search_data)
next
  assume "kw_extra kwargs = Some e \<and> kw_filename kwargs = Some f \<and> search_datasets w search = []"
  then show "resolve_urls w search kwargs st = (Inl IndexError, emit (SearchDatasets search) st)"
    by (simp add: resolve_urls_def try_search_datasets_def)
next
  assume "kw_extra kwargs = Some e \<and> kw_filename kwargs = Some f \<and> search_datasets w search = r # rs
        \<and> summary r ''get-data'' = Some []"
  then show "resolve_urls w search kwargs st = (Inl IndexError, emit (SearchDatasets search) st)"
    by (simp add: resolve_urls_def try_search_datasets_def)
next
  assume "kw_extra kwargs = Some e \<and> kw_filename kwargs = Some f \<and> search_datasets w search = r # rs
        \<and> summary r ''get-data'' = Some (base # bs)"
  then show "resolve_urls w search kwargs st = (Inr [base @ e @ f], emit (SearchDatasets search) st)"
    by (simp add: resolve_urls_def try_search_datasets_def)
next
  assume "kw_extra kwargs = Some e \<and> kw_filename kwargs = Some f \<and> search_datasets w search = r # rs
        \<and> summary r ''get-data'' = None"
  then show "resolve_urls w search kwargs st
          = except_search_data w search (emit (SearchDatasets search) st)"
    by (simp add: resolve_urls_def try_search_datasets_def)
qed

text \<open>
  Witness for C3, one case after the other on the stub catalog and its variants: no
  keyword argument; both, and no collection; both, and an empty entry; both, and the entry
  \<^verbatim>\<open>https://host/data/\<close>; both, and no entry.
\<close>

theorem strategy_selection_by_cases_witness:
  "resolve_urls stub_world [] kwargs_none empty_state
     = (Inr [''https://host/g/a.nc'', ''https://host/g/b.nc''], emit (SearchData []) empty_state)
   \<and> new_events empty_state (snd (resolve_urls stub_world [] kwargs_none empty_state))
     = [SearchData []]
   \<and> resolve_urls stub_world_no_collection [] kwargs_both empty_state
     = (Inl IndexError, emit (SearchDatasets []) empty_state)
   \<and> resolve_urls stub_world_empty_get_data [] kwargs_both empty_state
     = (Inl IndexError, emit (SearchDatasets []) empty_state)
   \<and> resolve_urls stub_world [] kwargs_both empty_state
     = (Inr [''https://host/data/extra/f.tif''], emit (SearchDatasets []) empty_state)
   \<and> resolve_urls stub_world_no_get_data [] kwargs_both empty_state
     = (Inr [''https://host/g/a.nc'', ''https://host/g/b.nc''],
        emit (SearchData []) (emit (SearchDatasets []) empty_state))"
proof -
  have n: "kw_extra kwargs_none = None \<or> kw_filename kwargs_none = None"
    by (simp add: kwargs_none_def)
  have b: "kw_extra kwargs_both = Some ''extra/''" "kw_filename kwargs_both = Some ''f.tif''"
    by (simp_all add: kwargs_both_def)
  have g: "except_search_data stub_world [] st
             = (Inr [''https://host/g/a.nc'', ''https://host/g/b.nc''], emit (SearchData []) st)"
          "except_search_data stub_world_no_get_data [] st
             = (Inr [''https://host/g/a.nc'', ''https://host/g/b.nc''], emit (SearchData []) st)"
    for st
    by (simp_all add: except_search_data_def stub_world_no_get_data_def stub_world_def)
  have c1: "search_datasets stub_world_no_collection [] = []"
    by (simp add: stub_world_no_collection_def stub_world_def)
  have c2: "search_datasets stub_world_empty_get_data []
              = [\<lparr>summary = [''get-data'' \<mapsto> []]\<rparr>]"
           "summary \<lparr>summary = [''get-data'' \<mapsto> []]\<rparr> ''get-data'' = Some []"
    by (simp_all add: stub_world_empty_get_data_def stub_world_def)
  have c3: "search_datasets stub_world []
              = [\<lparr>summary = [''get-data'' \<mapsto> [''https://host/data/'']]\<rparr>]"
           "summary \<lparr>summary = [''get-data'' \<mapsto> [''https://host/data/'']]\<rparr> ''get-data''
              = Some [''https://host/data/'']"
    by (simp_all add: stub_world_def)
  have c4: "search_datasets stub_world_no_get_data [] = [\<lparr>summary = Map.empty\<rparr>]"
           "summary \<lparr>summary = Map.empty\<rparr> ''get-data'' = (None :: string list option)"
    by (simp_all add: stub_world_no_get_data_def stub_world_def)
  from n strategy_selection_by_cases
    [where w = stub_world and search = "[]" and kwargs = kwargs_none and st = empty_state]
  have 1: "resolve_urls stub_world [] kwargs_none empty_state
             = except_search_data stub_world [] empty_state"
    and 2: "new_events empty_state (snd (resolve_urls stub_world [] kwargs_none empty_state))
             = [SearchData []]"
    by blast+
  from b c1 strategy_selection_by_cases
    [where w = stub_world_no_collection and search = "[]" and kwargs = kwargs_both
       and st = empty_state and e = "''extra/''" and f = "''f.tif''"]
  have 3: "resolve_urls stub_world_no_collection [] kwargs_both empty_state
             = (Inl IndexError, emit (SearchDatasets []) empty_state)"
    by blast
  from b c2 strategy_selection_by_cases
    [where w = stub_world_empty_get_data and search = "[]" and kwargs = kwargs_both
       and st = empty_state and e = "''extra/''" and f = "''f.tif''"
       and r = "\<lparr>summary = [''get-data'' \<mapsto> []]\<rparr>" and rs = "[]"]
  have 4: "resolve_urls stub_world_empty_get_data [] kwargs_both empty_state
             = (Inl IndexError, emit (SearchDatasets []) empty_state)"
    by blast
  from b c3 strategy_selection_by_cases
    [where w = stub_world and search = "[]" and kwargs = kwargs_both
       and st = empty_state and e = "''extra/''" and f = "''f.tif''"
       and r = "\<lparr>summary = [''get-data'' \<mapsto> [''https://host/data/'']]\<rparr>" and rs = "[]"
       and base = "''https://host/data/''" and bs = "[]"]
  have 5: "resolve_urls stub_world [] kwargs_both empty_state
             = (Inr [''https://host/data/'' @ ''extra/'' @ ''f.tif''], emit (SearchDatasets []) empty_state)"
    by blast
  from b c4 strategy_selection_by_cases
    [where w = stub_world_no_get_data and search = "[]" and kwargs = kwargs_both
       and st = empty_state and e = "''extra/''" and f = "''f.tif''"
       and r = "\<lparr>summary = Map.empty\<rparr>" and rs = "[]"]
  have 6: "resolve_urls stub_world_no_get_data [] kwargs_both empty_state
             = except_search_data stub_world_no_get_data [] (emit (SearchDatasets []) empty_state)"
    by blast
  from 1 2 3 4 5 6 show ?thesis by (simp add: g)
qed

text \<open>
  C6: with both \<^verbatim>\<open>extra\<close> and \<^verbatim>\<open>filename\<close> supplied, the resolver takes the first
  collection that the catalog returns, reads the first URL of its \<^verbatim>\<open>"get-data"\<close> entry and
  produces the single URL that concatenates this base, \<^verbatim>\<open>extra\<close> and \<^verbatim>\<open>filename\<close>; the
  collection query is the only request it sends.
\<close>

theorem metadata_strategy_single_url:
  assumes "kw_extra kwargs = Some e" and "kw_filename kwargs = Some f"
    and "search_datasets w search = r # rs" and "summary r ''get-data'' = Some (base # bs)"
  shows "resolve_urls w search kwargs st = (Inr [base @ e @ f], emit (SearchDatasets search) st)"
  using assms by (simp add: resolve_urls_def try_search_datasets_def)

text \<open>
  Witness for C6: base URL \<^verbatim>\<open>https://host/data/\<close>, path fragment \<^verbatim>\<open>extra/\<close> and filename
  \<^verbatim>\<open>f.tif\<close> resolve to \<^verbatim>\<open>https://host/data/extra/f.tif\<close>.
\<close>

theorem metadata_strategy_single_url_witness:
  "resolve_urls stub_world [(''short_name'', ''NSIDC-0593'')] kwargs_both empty_state
     = (Inr [''https://host/data/extra/f.tif''],
        emit (SearchDatasets [(''short_name'', ''NSIDC-0593'')]) empty_state)"
  using metadata_strategy_single_url
    [where kwargs = kwargs_both and e = "''extra/''" and f = "''f.tif''" and w = stub_world
       and search = "[(''short_name'', ''NSIDC-0593'')]"
       and r = "\<lparr>summary = [''get-data'' \<mapsto> [''https://host/data/'']]\<rparr>" and rs = "[]"
       and base = "''https://host/data/''" and bs = "[]" and st = empty_state]
  by (simp add: kwargs_both_def stub_world_def)

text \<open>
  C7: a catalog query that returns no record ends the fetch with IndexError, under the
  metadata strategy, under the granule strategy, and when the granule query is made after a
  KeyError on the summary of the first collection. Nothing is retrieved: the state after
  the call is the state before it with the queries added to the log.
\<close>

theorem empty_query_is_index_error:
  "(kw_extra kwargs \<noteq> None \<and> kw_filename kwargs \<noteq> None \<and> search_datasets w search = [] \<longrightarrow>
      fetch_nsidc w search kwargs st = (Inl IndexError, emit (SearchDatasets search) st))
   \<and> (\<not> (kw_extra kwargs \<noteq> None \<and> kw_filename kwargs \<noteq> None) \<and> search_data w search = [] \<longrightarrow>
      fetch_nsidc w search kwargs st = (Inl IndexError, emit (SearchData search) st))
   \<and> (kw_extra kwargs \<noteq> None \<and> kw_filename kwargs \<noteq> None \<and> search_datasets w search = r # rs
        \<and> summary r ''get-data'' = None \<and> search_data w search = [] \<longrightarrow>
      fetch_nsidc w search kwargs st
        = (Inl IndexError, emit (SearchData search) (emit (SearchDatasets search) st)))"
proof (intro conjI impI)
  assume "kw_extra kwargs \<noteq> None \<and> kw_filename kwargs \<noteq> None \<and> search_datasets w search = []"
  then show "fetch_nsidc w search kwargs st = (Inl IndexError, emit (SearchDatasets search) st)"
    by (auto simp: fetch_nsidc_def resolve_urls_def try_search_datasets_def)
next
  assume a: "\<not> (kw_extra kwargs \<noteq> None \<and> kw_filename kwargs \<noteq> None) \<and> search_data w search = []"
  then have "resolve_urls w search kwargs st = except_search_data w search st"
    by (intro resolve_urls_missing_key) auto
  with a show "fetch_nsidc w search kwargs st = (Inl IndexError, emit (SearchData search) st)"
    by (simp add: fetch_nsidc_def except_search_data_def)
next
  assume "kw_extra kwargs \<noteq> None \<and> kw_filename kwargs \<noteq> None \<and> search_datasets w search = r # rs
        \<and> summary r ''get-data'' = None \<and> search_data w search = []"
  then show "fetch_nsidc w search kwargs st
        = (Inl IndexError, emit (SearchData search) (emit (SearchDatasets search) st))"
    by (auto simp: fetch_nsidc_def resolve_urls_def try_search_datasets_def except_search_data_def)
qed

text \<open>Witness for C7: the stub catalog, emptied, under each of the three cases.\<close>

theorem empty_query_is_index_error_witness:
  "fetch_nsidc (stub_world\<lparr>search_datasets := \<lambda>s. []\<rparr>) [] kwargs_both empty_state
     = (Inl IndexError, emit (SearchDatasets []) empty_state)
   \<and> fetch_nsidc (stub_world\<lparr>search_data := \<lambda>s. []\<rparr>) [] kwargs_none empty_state
     = (Inl IndexError, emit (SearchData []) empty_state)
   \<and> fetch_nsidc (stub_world\<lparr>search_datasets := \<lambda>s. [\<lparr>summary = Map.empty\<rparr>], search_data := \<lambda>s. []\<rparr>)
       [] kwargs_both empty_state
     = (Inl IndexError, emit (SearchData []) (emit (SearchDatasets []) empty_state))"
  using empty_query_is_index_error
      [where w = "stub_world\<lparr>search_datasets := \<lambda>s. []\<rparr>" and kwargs = kwargs_both and search = "[]"
         and st = empty_state]
    empty_query_is_index_error
      [where w = "stub_world\<lparr>search_data := \<lambda>s. []\<rparr>" and kwargs = kwargs_none and search = "[]"
         and st = empty_state]
    empty_query_is_index_error
      [where w = "stub_world\<lparr>search_datasets := \<lambda>s. [\<lparr>summary = Map.empty\<rparr>], search_data := \<lambda>s. []\<rparr>"
         and kwargs = kwargs_both and search = "[]" and st = empty_state
         and r = "\<lparr>summary = Map.empty\<rparr>" and rs = "[]"]
  by (simp add: kwargs_both_def kwargs_none_def)

subsection \<open>Collecting the outputs\<close>

lemma retrieve_all_length:
  "retrieve_all w p urls st = (Inr outs, st') \<Longrightarrow> length outs = length urls"
  by (induction urls arbitrary: st outs st') (auto split: prod.splits sum.splits)

lemma retrieve_identity_is_path:
  "retrieve w url fname path d None st = (Inr out, st') \<Longrightarrow> out = Str (path @ ''/'' @ fname)"
  by (auto simp: retrieve_def Let_def split: prod.splits sum.splits if_splits)

lemma retrieve_all_identity_paths:
  "retrieve_all w None urls st = (Inr outs, st') \<Longrightarrow>
   outs = map (\<lambda>url. Str (os_cache w ''icepack'' @ ''/'' @ path_name url)) urls"
  by (induction urls arbitrary: st outs st')
     (auto split: prod.splits sum.splits dest: retrieve_identity_is_path)

lemma concat_processor_result_paths:
  "concat (map processor_result (map (\<lambda>x. Str (g x)) xs)) = map (\<lambda>x. Str (g x)) xs"
  by (induction xs) simp_all

text \<open>
  C5, as the specification states it: the outputs of the processor are collected into one
  flat sequence, returned unwrapped when it has exactly one element. For the inventory the
  stub catalog resolves one URL, whose archive holds one nested shapefile: the processor
  returns a list of one path, the flat sequence has one element, and yet the fetch returns
  the list, not the path.
\<close>

theorem fetch_nsidc_flat_unwrap_counterexample:
  "fst (retrieve_all stub_world (kw_processor (rgi_kwargs stub_world))
          [''https://host/data/global_files/RGI2000-v7.0-G-global.zip'']
          (emit (SearchDatasets rgi_search) empty_state))
     = Inr [Lst [Str ''/cache/icepack/RGI2000-v7.0-G-global.zip.unzip/01_alaska.zip.unzip/01_alaska.shp'']]
   \<and> fst (fetch_nsidc stub_world rgi_search (rgi_kwargs stub_world) empty_state)
     = Inr (Lst [Str ''/cache/icepack/RGI2000-v7.0-G-global.zip.unzip/01_alaska.zip.unzip/01_alaska.shp''])
   \<and> spec_collect_outputs
       [Lst [Str ''/cache/icepack/RGI2000-v7.0-G-global.zip.unzip/01_alaska.zip.unzip/01_alaska.shp'']]
     = Str ''/cache/icepack/RGI2000-v7.0-G-global.zip.unzip/01_alaska.zip.unzip/01_alaska.shp''"
  by code_simp

text \<open>
  C5, amended: the fetch collects one entry for every resolved URL, the value of the
  processor for that URL as it is (a path or a list of paths, not flattened); it returns
  that entry itself when exactly one URL was resolved and the ordered list of entries
  otherwise. With no processor every entry is a path, and this is the flat sequence of the
  specification, unwrapped when it has exactly one element.
\<close>

theorem fetch_nsidc_one_entry_per_url:
  assumes "resolve_urls w search kwargs st = (Inr urls, st1)"
    and "retrieve_all w (kw_processor kwargs) urls st1 = (Inr outs, st2)"
  shows "length outs = length urls
     \<and> fetch_nsidc w search kwargs st = (Inr (if length urls = 1 then outs ! 0 else Lst outs), st2)
     \<and> (kw_processor kwargs = None \<longrightarrow>
          fetch_nsidc w search kwargs st = (Inr (spec_collect_outputs outs), st2))"
proof -
  have len: "length outs = length urls"
    using assms(2) by (rule retrieve_all_length)
  have res: "fetch_nsidc w search kwargs st
               = (Inr (if length urls = 1 then outs ! 0 else Lst outs), st2)"
    using assms len by (simp add: fetch_nsidc_def)
  have "fetch_nsidc w search kwargs st = (Inr (spec_collect_outputs outs), st2)"
    if "kw_processor kwargs = None"
  proof -
    from that assms(2)
    have "outs = map (\<lambda>url. Str (os_cache w ''icepack'' @ ''/'' @ path_name url)) urls"
      by (auto dest: retrieve_all_identity_paths)
    then have "concat (map processor_result outs) = outs"
      by (simp only: concat_processor_result_paths)
    then show ?thesis using res len by (simp add: spec_collect_outputs_def)
  qed
  with len res show ?thesis by blast
qed

lemma stub_granule_retrieval:
  "fst (retrieve_all stub_world None [''https://host/g/a.nc'', ''https://host/g/b.nc'']
          (emit (SearchData []) empty_state))
     = Inr [Str ''/cache/icepack/a.nc'', Str ''/cache/icepack/b.nc'']"
  by code_simp

text \<open>
  Witness for C5: the granule of the stub catalog has two data links; the fetch returns the
  list of the two local paths.
\<close>

theorem fetch_nsidc_one_entry_per_url_witness:
  "fetch_nsidc stub_world [] kwargs_none empty_state
     = (Inr (Lst [Str ''/cache/icepack/a.nc'', Str ''/cache/icepack/b.nc'']),
        snd (retrieve_all stub_world None [''https://host/g/a.nc'', ''https://host/g/b.nc'']
               (emit (SearchData []) empty_state)))"
proof -
  have h1: "resolve_urls stub_world [] kwargs_none empty_state
              = (Inr [''https://host/g/a.nc'', ''https://host/g/b.nc''], emit (SearchData []) empty_state)"
    by (simp add: resolve_urls_def try_search_datasets_def except_search_data_def kwargs_none_def
          stub_world_def)
  have h2: "retrieve_all stub_world (kw_processor kwargs_none)
              [''https://host/g/a.nc'', ''https://host/g/b.nc''] (emit (SearchData []) empty_state)
            = (Inr [Str ''/cache/icepack/a.nc'', Str ''/cache/icepack/b.nc''],
               snd (retrieve_all stub_world None [''https://host/g/a.nc'', ''https://host/g/b.nc'']
                      (emit (SearchData []) empty_state)))"
    using stub_granule_retrieval by (simp add: kwargs_none_def prod_eq_iff)
  show ?thesis using fetch_nsidc_one_entry_per_url [OF h1 h2] by simp
qed

subsection \<open>The Randolph Glacier Inventory\<close>

lemma region_error_inj: "region_error n = region_error n' \<longleftrightarrow> n = n'"
  by (simp add: region_error_def)

lemma HTTPDownloader_no_region_error:
  "HTTPDownloader w url output_file st \<noteq> (Inl (region_error n), st')"
  by (simp add: HTTPDownloader_def region_error_def Let_def split: option.split)

lemma EarthdataDownloader_no_region_error:
  "EarthdataDownloader w url output_file st \<noteq> (Inl (region_error n), st')"
  using HTTPDownloader_no_region_error [of w _ output_file _ n st']
  by (auto simp: EarthdataDownloader_def Let_def region_error_def split: option.splits sum.splits)

lemma retrieve_no_region_error:
  "retrieve w url fname path EarthdataDownloader p st \<noteq> (Inl (region_error n), st')"
  using EarthdataDownloader_no_region_error [of w url "path @ ''/'' @ fname" st n]
  by (auto simp: retrieve_def Let_def split: prod.splits sum.splits option.splits if_splits)

lemma retrieve_all_no_region_error:
  "retrieve_all w p urls st \<noteq> (Inl (region_error n), st')"
proof (induction urls arbitrary: st st')
  case Nil
  show ?case by simp
next
  case (Cons url urls)
  show ?case
    using retrieve_no_region_error [of w url "path_name url" "os_cache w ''icepack''" p st n]
      Cons.IH
    by (auto split: prod.splits sum.splits)
qed

lemma resolve_urls_no_region_error:
  "resolve_urls w search kwargs st \<noteq> (Inl (region_error n), st')"
  by (auto simp: resolve_urls_def try_search_datasets_def except_search_data_def Let_def
        region_error_def
      split: option.splits list.splits)

lemma fetch_nsidc_no_region_error:
  "fetch_nsidc w search kwargs st \<noteq> (Inl (region_error n), st')"
  using resolve_urls_no_region_error [of w search kwargs st n]
    retrieve_all_no_region_error [of w _ _ _ n]
  by (auto simp: fetch_nsidc_def split: prod.splits sum.splits)

text \<open>
  C10: with \<^verbatim>\<open>name=None\<close> the inventory fetch is the fetch of \<^verbatim>\<open>_fetch_nsidc\<close> itself:
  same result, unfiltered, same state, and never the region-validation error of line 120
  (another exception of the fetch, a ValueError of the GET among them, propagates as it
  is). Whenever the inventory fetch raises the region-validation error for \<open>n\<close>, the name
  \<open>n\<close> was given, the fetch below it succeeded, and no entry of what it returned contains
  \<open>n\<close>.
\<close>

theorem fetch_randolph_glacier_inventory_default:
  "fetch_randolph_glacier_inventory w None st = fetch_nsidc w rgi_search (rgi_kwargs w) st
   \<and> (\<forall>n. fst (fetch_randolph_glacier_inventory w None st) \<noteq> Inl (region_error n))
   \<and> (fst (fetch_randolph_glacier_inventory w name st) = Inl (region_error n) \<longrightarrow>
        name = Some n
        \<and> (\<exists>all_filenames st'.
             fetch_nsidc w rgi_search (rgi_kwargs w) st = (Inr all_filenames, st')
             \<and> filter (py_contains n) (py_iter all_filenames) = []))"
proof (intro conjI allI impI)
  show eq: "fetch_randolph_glacier_inventory w None st = fetch_nsidc w rgi_search (rgi_kwargs w) st"
    by (simp add: fetch_randolph_glacier_inventory_def split: prod.split sum.split)
  show "fst (fetch_randolph_glacier_inventory w None st) \<noteq> Inl (region_error n')" for n'
    using fetch_nsidc_no_region_error [of w rgi_search "rgi_kwargs w" st n']
    by (cases "fetch_nsidc w rgi_search (rgi_kwargs w) st") (auto simp: eq)
  assume a: "fst (fetch_randolph_glacier_inventory w name st) = Inl (region_error n)"
  obtain res st' where p: "fetch_nsidc w rgi_search (rgi_kwargs w) st = (res, st')"
    by (cases "fetch_nsidc w rgi_search (rgi_kwargs w) st")
  have "name = Some n
        \<and> (\<exists>all_filenames st'.
             fetch_nsidc w rgi_search (rgi_kwargs w) st = (Inr all_filenames, st')
             \<and> filter (py_contains n) (py_iter all_filenames) = [])"
  proof (cases res)
    case (Inl e)
    with p a have "fetch_nsidc w rgi_search (rgi_kwargs w) st = (Inl (region_error n), st')"
      by (simp add: fetch_randolph_glacier_inventory_def)
    with fetch_nsidc_no_region_error show ?thesis by blast
  next
    case (Inr all_filenames)
    with p a show ?thesis
      by (cases name)
         (auto simp: fetch_randolph_glacier_inventory_def Let_def region_error_inj
            fetch_nsidc_no_region_error split: if_splits)
  qed
  then show "name = Some n"
    and "\<exists>all_filenames st'.
             fetch_nsidc w rgi_search (rgi_kwargs w) st = (Inr all_filenames, st')
             \<and> filter (py_contains n) (py_iter all_filenames) = []"
    by blast+
qed

text \<open>
  A GET that raises MissingSchema, with no name given: the inventory fetch raises it, a
  ValueError by its class, and not the region-validation error.
\<close>

lemma inventory_default_propagates_get_error:
  "fst (fetch_randolph_glacier_inventory stub_world_bad_url None empty_state)
     = Inl (RequestError MissingSchema)
   \<and> is_ValueError (RequestError MissingSchema)"
  by code_simp

text \<open>
  Witness for C10: the stub catalog has no region \<^verbatim>\<open>antarctica\<close>, so that name raises
  the region-validation error; with no name the one shapefile of the archive is returned.
\<close>

theorem fetch_randolph_glacier_inventory_default_witness:
  "fst (fetch_randolph_glacier_inventory stub_world (Some ''antarctica'') empty_state)
     = Inl (region_error ''antarctica'')
   \<and> (\<exists>all_filenames st'.
         fetch_nsidc stub_world rgi_search (rgi_kwargs stub_world) empty_state = (Inr all_filenames, st')
         \<and> filter (py_contains ''antarctica'') (py_iter all_filenames) = [])
   \<and> fst (fetch_randolph_glacier_inventory stub_world None empty_state)
     = Inr (Lst [Str ''/cache/icepack/RGI2000-v7.0-G-global.zip.unzip/01_alaska.zip.unzip/01_alaska.shp''])"
proof -
  have h: "fst (fetch_randolph_glacier_inventory stub_world (Some ''antarctica'') empty_state)
             = Inl (region_error ''antarctica'')"
    by code_simp
  have d: "fst (fetch_nsidc stub_world rgi_search (rgi_kwargs stub_world) empty_state)
             = Inr (Lst [Str ''/cache/icepack/RGI2000-v7.0-G-global.zip.unzip/01_alaska.zip.unzip/01_alaska.shp''])"
    by code_simp
  from h d fetch_randolph_glacier_inventory_default
    [where w = stub_world and st = empty_state and name = "Some ''antarctica''"
       and n = "''antarctica''"]
  show ?thesis by simp
qed

subsection \<open>The URL and the cache of an outline\<close>

lemma commit_or_default_Some: "c \<noteq> [] \<Longrightarrow> commit_or_default (Some c) = c"
  by (simp add: commit_or_default_def)

lemma outline_url_inj:
  "outline_url name a = outline_url name b \<longleftrightarrow> commit_or_default a = commit_or_default b"
  by (simp add: outline_url_def)

lemma retrieve_cache_hit:
  "files st (path @ ''/'' @ fname) \<noteq> None \<Longrightarrow>
   retrieve w url fname path d None st = (Inr (Str (path @ ''/'' @ fname)), st)"
  by (auto simp: retrieve_def Let_def)

lemma retrieve_http_success:
  assumes "retrieve w url fname path HTTPDownloader None st = (Inr p, st1)"
  shows "p = Str (path @ ''/'' @ fname) \<and> files st1 (path @ ''/'' @ fname) \<noteq> None
     \<and> (files st (path @ ''/'' @ fname) = None \<longrightarrow>
          files st1 (path @ ''/'' @ fname) = remote w url
          \<and> new_events st st1 = [Transfer url (path @ ''/'' @ fname)])
     \<and> (files st (path @ ''/'' @ fname) \<noteq> None \<longrightarrow> st1 = st)"
  using assms
  by (auto simp: retrieve_def HTTPDownloader_def emit_def new_events_def Let_def
      split: if_splits option.splits)

lemma helheim_first_fetch:
  "fetch_outline stub_world ''helheim'' (Some ''aaa'') empty_state
     = (Inr (Str ''/cache/icepack/helheim.geojson''), helheim_fetched)"
proof -
  have "fst (fetch_outline stub_world ''helheim'' (Some ''aaa'') empty_state)
          = Inr (Str ''/cache/icepack/helheim.geojson'')"
    by code_simp
  then show ?thesis by (simp add: helheim_fetched_def prod_eq_iff)
qed

lemma helheim_in_catalog: "''helheim'' \<in> set get_glacier_names"
  by (simp add: get_glacier_names_def)

text \<open>
  C4, as the specification states it: two distinct commit tokens give two distinct URLs.
  The empty string and the default commit are distinct, and give the same URL, since
  \<^verbatim>\<open>commit or default_commit\<close> replaces a falsy commit by the default.
\<close>

theorem fetch_outline_same_url_counterexample:
  "'''' \<noteq> default_commit
   \<and> outline_url ''helheim'' (Some '''') = outline_url ''helheim'' (Some default_commit)"
  by (simp add: outline_url_def commit_or_default_def default_commit_def)

text \<open>
  C4, amended: two distinct non-empty commit tokens give two distinct URLs, for every
  name; an empty or omitted commit gives the URL of the default commit. For a name of the
  catalog, a call that returns a path leaves a state in which the same call returns the
  same path and changes nothing (no request is sent); and whenever the file of that name is
  in the cache, the call returns its path and changes nothing.
\<close>

theorem fetch_outline_urls_and_cache:
  "(a \<noteq> [] \<and> b \<noteq> [] \<and> a \<noteq> b \<longrightarrow> outline_url name (Some a) \<noteq> outline_url name (Some b))
   \<and> outline_url name (Some []) = outline_url name (Some default_commit)
   \<and> outline_url name None = outline_url name (Some default_commit)
   \<and> (name \<in> set get_glacier_names \<and> fetch_outline w name commit st = (Inr p, st1) \<longrightarrow>
        fetch_outline w name commit st1 = (Inr p, st1))
   \<and> (name \<in> set get_glacier_names \<and> files st (os_cache w ''icepack'' @ ''/'' @ name @ ''.geojson'') \<noteq> None \<longrightarrow>
        fetch_outline w name commit st = (Inr (Str (os_cache w ''icepack'' @ ''/'' @ name @ ''.geojson'')), st))"
proof (intro conjI impI)
  assume "a \<noteq> [] \<and> b \<noteq> [] \<and> a \<noteq> b"
  then show "outline_url name (Some a) \<noteq> outline_url name (Some b)"
    by (simp add: outline_url_inj commit_or_default_Some)
next
  show "outline_url name (Some []) = outline_url name (Some default_commit)"
    by (simp add: outline_url_inj commit_or_default_def)
next
  show "outline_url name None = outline_url name (Some default_commit)"
    by (simp add: outline_url_inj commit_or_default_def)
next
  assume "name \<in> set get_glacier_names \<and> fetch_outline w name commit st = (Inr p, st1)"
  then have h: "name \<in> set get_glacier_names" and g: "fetch_outline w name commit st = (Inr p, st1)"
    by simp_all
  from g h have r: "retrieve w (outline_url name commit) (name @ ''.geojson'') (os_cache w ''icepack'')
                  HTTPDownloader None st = (Inr p, st1)"
    by (simp add: fetch_outline_def)
  from retrieve_http_success [OF r]
  have "p = Str (os_cache w ''icepack'' @ ''/'' @ name @ ''.geojson'')"
    and "files st1 (os_cache w ''icepack'' @ ''/'' @ name @ ''.geojson'') \<noteq> None"
    by blast+
  then show "fetch_outline w name commit st1 = (Inr p, st1)"
    using h by (simp add: fetch_outline_def retrieve_cache_hit)
next
  assume "name \<in> set get_glacier_names
     \<and> files st (os_cache w ''icepack'' @ ''/'' @ name @ ''.geojson'') \<noteq> None"
  then show "fetch_outline w name commit st
     = (Inr (Str (os_cache w ''icepack'' @ ''/'' @ name @ ''.geojson'')), st)"
    by (simp add: fetch_outline_def retrieve_cache_hit)
qed

text \<open>
  Witness for C4: Helheim at the commits \<^verbatim>\<open>aaa\<close> and \<^verbatim>\<open>bbb\<close>, and a second fetch
  after the first.
\<close>

theorem fetch_outline_urls_and_cache_witness:
  "outline_url ''helheim'' (Some ''aaa'') \<noteq> outline_url ''helheim'' (Some ''bbb'')
   \<and> fetch_outline stub_world ''helheim'' (Some ''aaa'') helheim_fetched
       = (Inr (Str ''/cache/icepack/helheim.geojson''), helheim_fetched)
   \<and> files helheim_fetched (os_cache stub_world ''icepack'' @ ''/'' @ ''helheim'' @ ''.geojson'') \<noteq> None
   \<and> fetch_outline stub_world ''helheim'' None helheim_fetched
       = (Inr (Str (os_cache stub_world ''icepack'' @ ''/'' @ ''helheim'' @ ''.geojson'')), helheim_fetched)"
proof -
  have f: "files helheim_fetched (os_cache stub_world ''icepack'' @ ''/'' @ ''helheim'' @ ''.geojson'') \<noteq> None"
    unfolding helheim_fetched_def by code_simp
  have n: "''aaa'' \<noteq> [] \<and> ''bbb'' \<noteq> [] \<and> ''aaa'' \<noteq> ''bbb''" by simp
  from n fetch_outline_urls_and_cache [where a = "''aaa''" and b = "''bbb''" and name = "''helheim''"]
  have 1: "outline_url ''helheim'' (Some ''aaa'') \<noteq> outline_url ''helheim'' (Some ''bbb'')"
    by blast
  from helheim_in_catalog helheim_first_fetch
    fetch_outline_urls_and_cache
      [where name = "''helheim''" and w = stub_world and commit = "Some ''aaa''"
         and st = empty_state and p = "Str ''/cache/icepack/helheim.geojson''"
         and ?st1.0 = helheim_fetched]
  have 2: "fetch_outline stub_world ''helheim'' (Some ''aaa'') helheim_fetched
       = (Inr (Str ''/cache/icepack/helheim.geojson''), helheim_fetched)"
    by blast
  from helheim_in_catalog f
    fetch_outline_urls_and_cache
      [where name = "''helheim''" and w = stub_world and commit = None and st = helheim_fetched]
  have 3: "fetch_outline stub_world ''helheim'' None helheim_fetched
       = (Inr (Str (os_cache stub_world ''icepack'' @ ''/'' @ ''helheim'' @ ''.geojson'')), helheim_fetched)"
    by blast
  from 1 2 f 3 show ?thesis by blast
qed

text \<open>
  C9: for a name of the catalog, the path that \<open>fetch_outline\<close> returns is
  \<^verbatim>\<open>{name}.geojson\<close> in the cache directory, whatever the commit; after a call at commit
  \<open>a\<close> has returned, a call at any commit \<open>b\<close> returns the same path and changes nothing,
  so the file it designates is the one transferred for \<open>a\<close> when the cache did not hold
  it before.
\<close>

theorem fetch_outline_cache_ignores_commit:
  assumes "name \<in> set get_glacier_names"
    and "fetch_outline w name a st = (Inr p, st1)"
  shows "p = Str (os_cache w ''icepack'' @ ''/'' @ name @ ''.geojson'')
     \<and> fetch_outline w name b st1 = (Inr p, st1)
     \<and> (files st (os_cache w ''icepack'' @ ''/'' @ name @ ''.geojson'') = None \<longrightarrow>
          files st1 (os_cache w ''icepack'' @ ''/'' @ name @ ''.geojson'') = remote w (outline_url name a))"
proof -
  from assms(2) assms(1) have r: "retrieve w (outline_url name a) (name @ ''.geojson'') (os_cache w ''icepack'')
                  HTTPDownloader None st = (Inr p, st1)"
    by (simp add: fetch_outline_def)
  from retrieve_http_success [OF r]
  have p: "p = Str (os_cache w ''icepack'' @ ''/'' @ name @ ''.geojson'')"
    and f: "files st1 (os_cache w ''icepack'' @ ''/'' @ name @ ''.geojson'') \<noteq> None"
    and c: "files st (os_cache w ''icepack'' @ ''/'' @ name @ ''.geojson'') = None \<longrightarrow>
          files st1 (os_cache w ''icepack'' @ ''/'' @ name @ ''.geojson'') = remote w (outline_url name a)"
    by blast+
  have "fetch_outline w name b st1 = (Inr p, st1)"
    using assms(1) p f by (simp add: fetch_outline_def retrieve_cache_hit)
  with p c show ?thesis by blast
qed

text \<open>
  Witness for C9: after Helheim has been fetched at \<^verbatim>\<open>aaa\<close>, fetching it at \<^verbatim>\<open>bbb\<close>
  returns the same path, which holds what was served for \<^verbatim>\<open>aaa\<close>.
\<close>

theorem fetch_outline_cache_ignores_commit_witness:
  "fetch_outline stub_world ''helheim'' (Some ''bbb'') helheim_fetched
     = (Inr (Str ''/cache/icepack/helheim.geojson''), helheim_fetched)
   \<and> files helheim_fetched ''/cache/icepack/helheim.geojson''
     = Some ''data of https://raw.githubusercontent.com/icepack/glacier-meshes/aaa/glaciers/helheim.geojson''"
proof -
  have e: "files empty_state (os_cache stub_world ''icepack'' @ ''/'' @ ''helheim'' @ ''.geojson'') = None"
    by (simp add: empty_state_def)
  have c: "os_cache stub_world ''icepack'' @ ''/'' @ ''helheim'' @ ''.geojson''
             = ''/cache/icepack/helheim.geojson''"
    by (simp add: stub_world_def)
  have r: "remote stub_world (outline_url ''helheim'' (Some ''aaa''))
     = Some ''data of https://raw.githubusercontent.com/icepack/glacier-meshes/aaa/glaciers/helheim.geojson''"
    by (simp add: stub_world_def outline_url_def outlines_url_def commit_or_default_def)
  from fetch_outline_cache_ignores_commit
    [OF helheim_in_catalog helheim_first_fetch, where b = "Some ''bbb''"] e
  have "fetch_outline stub_world ''helheim'' (Some ''bbb'') helheim_fetched
          = (Inr (Str ''/cache/icepack/helheim.geojson''), helheim_fetched)"
    and "files helheim_fetched (os_cache stub_world ''icepack'' @ ''/'' @ ''helheim'' @ ''.geojson'')
          = remote stub_world (outline_url ''helheim'' (Some ''aaa''))"
    by blast+
  then show ?thesis by (simp only: c r)
qed

end
